theory Spec2Isabelle
  imports Main "HOL-Library.Word" "HOL-Library.Product_Lexorder"
begin

section \<open>AVM values and the objects of the Debug Adapter Protocol\<close>

text \<open>
  The adapter in \<^verbatim>\<open>src/debugRequestHandlers.ts\<close> answers requests of the Debug Adapter
  Protocol from the state of a trace walker.  The handlers are embedded as functions on
  an explicit session state; what a handler passes to \<^verbatim>\<open>sendResponse\<close> is the value the
  function returns.

  A \<^verbatim>\<open>Uint8Array\<close> is a list of 8-bit words.  An \<^verbatim>\<open>algosdk.modelsv2.AvmValue\<close> has a
  numeric \<^verbatim>\<open>type\<close> (1 for a byte string) and the optional fields \<^verbatim>\<open>bytes\<close> and \<^verbatim>\<open>uint\<close>.
\<close>

type_synonym byte = "8 word"

record AvmValue =
  type' :: nat
  bytes :: "byte list option"
  uint :: "nat option"

record VariablePresentationHint =
  kind :: "string option"
  attributes :: "string list option"

text \<open>\<^verbatim>\<open>DebugProtocol.Variable\<close>; a field the code leaves \<^verbatim>\<open>undefined\<close> is \<open>None\<close>.\<close>

record Variable =
  name :: string
  value' :: string
  var_type :: "string option"
  variablesReference :: nat
  namedVariables :: "nat option"
  indexedVariables :: "nat option"
  presentationHint :: "VariablePresentationHint option"
  evaluateName :: "string option"

datatype AvmValueScope = stack | scratch

text \<open>The \<^verbatim>\<open>filter\<close> of a variables request: \<^verbatim>\<open>'indexed' | 'named' | undefined\<close>.\<close>

datatype VariablesFilter = indexed | named

datatype BufferEncoding = hex | base64 | ascii

subsection \<open>Numbers and buffers as text\<close>

text \<open>
  \<^verbatim>\<open>toString()\<close> on an integer: decimal digits, a minus sign for a negative number.  This
  is what JavaScript prints for a bigint of any size and for a number of magnitude up to
  \<open>2 ^ 53\<close>.  The handlers apply it to array lengths, to positions inside an array, to
  bytes and to the \<^verbatim>\<open>uint\<close> of an AVM value (a bigint in algosdk 3); a number that may
  be larger is printed by \<open>template_number\<close> below.
\<close>

function toString_nat :: "nat \<Rightarrow> string" where
  "toString_nat n =
     (if n < 10 then [''0123456789'' ! n]
      else toString_nat (n div 10) @ [''0123456789'' ! (n mod 10)])"
  by pat_completeness auto
termination
  by (relation "measure id") auto

declare toString_nat.simps [simp del]

definition toString :: "int \<Rightarrow> string" where
  "toString i = (if i < 0 then CHR ''-'' # toString_nat (nat (- i)) else toString_nat (nat i))"

text \<open>\<^verbatim>\<open>Buffer.from(bytes).toString('hex')\<close>: two lower-case hexadecimal digits a byte.\<close>

definition hex_of_byte :: "byte \<Rightarrow> string" where
  "hex_of_byte b =
     [''0123456789abcdef'' ! (unat b div 16), ''0123456789abcdef'' ! (unat b mod 16)]"

definition to_hex :: "byte list \<Rightarrow> string" where
  "to_hex bs = concat (map hex_of_byte bs)"

text \<open>
  \<^verbatim>\<open>Buffer.from(bytes).toString('base64')\<close>: the standard alphabet, three bytes to four
  characters, the last group padded with \<^verbatim>\<open>=\<close>.
\<close>

definition b64_char :: "nat \<Rightarrow> char" where
  "b64_char n =
     ''ABCDEFGHIJKLMNOPQRSTUVWXYZabcdefghijklmnopqrstuvwxyz0123456789+/'' ! (n mod 64)"

fun to_base64 :: "byte list \<Rightarrow> string" where
  "to_base64 [] = []"
| "to_base64 [a] =
     (let n = unat a * 65536
      in [b64_char (n div 262144), b64_char (n div 4096), CHR ''='', CHR ''=''])"
| "to_base64 [a, b] =
     (let n = unat a * 65536 + unat b * 256
      in [b64_char (n div 262144), b64_char (n div 4096), b64_char (n div 64), CHR ''=''])"
| "to_base64 (a # b # c # rest) =
     (let n = unat a * 65536 + unat b * 256 + unat c
      in [b64_char (n div 262144), b64_char (n div 4096), b64_char (n div 64), b64_char n]
         @ to_base64 rest)"

text \<open>
  \<^verbatim>\<open>Buffer.from(bytes).toString('ascii')\<close>: Node clears the highest bit of every byte
  and reads the rest as a character code.
\<close>

definition to_ascii :: "byte list \<Rightarrow> string" where
  "to_ascii bs = map (\<lambda>b. char_of (unat b mod 128)) bs"

fun encoding_name :: "BufferEncoding \<Rightarrow> string" where
  "encoding_name hex = ''hex''"
| "encoding_name base64 = ''base64''"
| "encoding_name ascii = ''ascii''"

fun Buffer_toString :: "byte list \<Rightarrow> BufferEncoding \<Rightarrow> string" where
  "Buffer_toString bs hex = to_hex bs"
| "Buffer_toString bs base64 = to_base64 bs"
| "Buffer_toString bs ascii = to_ascii bs"

text \<open>
  Modelled from the spec: \<^verbatim>\<open>isAsciiPrintable\<close> is imported from \<^verbatim>\<open>./utils\<close>, which is
  not among the sources; the specification says that the \<^verbatim>\<open>ascii\<close> rendering is shown
  only if all bytes are printable ASCII, the codes 32 to 126.
\<close>

definition isAsciiPrintable :: "byte list \<Rightarrow> bool" where
  "isAsciiPrintable bs = list_all (\<lambda>b. 32 \<le> unat b \<and> unat b \<le> 126) bs"

subsection \<open>Algorand addresses\<close>

text \<open>
  \<^verbatim>\<open>algosdk.encodeAddress\<close> appends bytes 28 to 31 of the SHA-512/256 digest of the key
  to the key, encodes the result in base 32 (RFC 4648, padded) and keeps the first 58
  characters.  The digest function is a parameter \<open>genericHash\<close> of the model.
\<close>

definition b32_char :: "nat \<Rightarrow> char" where
  "b32_char n = ''ABCDEFGHIJKLMNOPQRSTUVWXYZ234567'' ! (n mod 32)"

definition b32_group :: "byte \<Rightarrow> byte \<Rightarrow> byte \<Rightarrow> byte \<Rightarrow> byte \<Rightarrow> string" where
  "b32_group a b c d e =
     (let n = (((unat a * 256 + unat b) * 256 + unat c) * 256 + unat d) * 256 + unat e
      in map (\<lambda>k. b32_char (n div 32 ^ (7 - k))) [0..<8])"

fun base32_encode :: "byte list \<Rightarrow> string" where
  "base32_encode [] = []"
| "base32_encode [a] = take 2 (b32_group a 0 0 0 0) @ ''======''"
| "base32_encode [a, b] = take 4 (b32_group a b 0 0 0) @ ''====''"
| "base32_encode [a, b, c] = take 5 (b32_group a b c 0 0) @ ''===''"
| "base32_encode [a, b, c, d] = take 7 (b32_group a b c d 0) @ ''=''"
| "base32_encode (a # b # c # d # e # rest) = b32_group a b c d e @ base32_encode rest"

definition encodeAddress :: "(byte list \<Rightarrow> byte list) \<Rightarrow> byte list \<Rightarrow> string" where
  "encodeAddress genericHash address =
     (let checksum = take (32 - 28) (drop 28 (genericHash address))
      in take 58 (base32_encode (address @ checksum)))"

subsection \<open>Expanding a value into its children\<close>

definition format_child :: "string \<Rightarrow> string \<Rightarrow> string \<Rightarrow> Variable" where
  "format_child n t v =
     \<lparr>name = n, value' = v, var_type = Some t, variablesReference = 0,
      namedVariables = None, indexedVariables = None, presentationHint = None,
      evaluateName = None\<rparr>"

definition expandAvmValue ::
  "(byte list \<Rightarrow> byte list) \<Rightarrow> AvmValue \<Rightarrow> VariablesFilter option \<Rightarrow> Variable list"
where
  "expandAvmValue genericHash avmValue flt =
     (if type' avmValue \<noteq> 1 then []
      else
        let bs = (case bytes avmValue of Some b \<Rightarrow> b | None \<Rightarrow> []);
            formats0 = [hex, base64] @ (if isAsciiPrintable bs then [ascii] else []);
            formats = (if length bs = 0 then [] else formats0);
            named_values =
              (if flt \<noteq> Some indexed then
                 map (\<lambda>format.
                        format_child (encoding_name format) ''string'' (Buffer_toString bs format))
                   formats
                 @ (if length bs = 32
                    then [format_child ''address'' ''string'' (encodeAddress genericHash bs)]
                    else [])
                 @ [format_child ''length'' ''number'' (toString (int (length bs)))]
               else []);
            indexed_values =
              (if flt \<noteq> Some named then
                 map (\<lambda>i. format_child (toString (int i)) ''uint8''
                             (toString (int (unat (bs ! i)))))
                   [0..<length bs]
               else [])
        in named_values @ indexed_values)"

section \<open>The debug session\<close>

text \<open>
  \<^verbatim>\<open>Handles\<close> of \<^verbatim>\<open>@vscode/debugadapter\<close> numbers the values it is given from 1000
  and finds them again by number.  The session keeps in it the two scope markers, the
  markers of the stack and scratch arrays, and references to single values.
\<close>

datatype HandleValue =
    execution
  | chain
  | scope_handle AvmValueScope
  | AvmValueReference AvmValueScope int

record Handles =
  nextHandle :: nat
  handleMap :: "nat \<rightharpoonup> HandleValue"

definition Handles_new :: Handles where
  "Handles_new = \<lparr>nextHandle = 1000, handleMap = Map.empty\<rparr>"

definition Handles_create :: "HandleValue \<Rightarrow> Handles \<Rightarrow> nat \<times> Handles" where
  "Handles_create v h =
     (nextHandle h, \<lparr>nextHandle = nextHandle h + 1, handleMap = (handleMap h)(nextHandle h \<mapsto> v)\<rparr>)"

definition Handles_get :: "Handles \<Rightarrow> nat \<Rightarrow> HandleValue option" where
  "Handles_get h k = handleMap h k"

text \<open>What the session has handed to the transport, and what it has printed.\<close>

datatype Event = InitializedEvent | TerminatedEvent | StoppedEvent string nat

datatype Sent = response string | event Event

text \<open>
  The session state.  The runtime (\<^verbatim>\<open>./txnGroupWalkerRuntime\<close>) is not among the sources:
  the values its \<^verbatim>\<open>getStackValues()\<close> and \<^verbatim>\<open>getScratchValues()\<close> return at the current
  stop are the fields \<open>stackValues\<close> and \<open>scratchValues\<close>.
\<close>

record Session =
  variableHandles :: Handles
  stackValues :: "AvmValue list"
  scratchValues :: "AvmValue list"
  outbox :: "Sent list"
  console_log :: "string list"

definition sendResponse :: "string \<Rightarrow> Session \<Rightarrow> Session" where
  "sendResponse command s = s\<lparr>outbox := outbox s @ [response command]\<rparr>"


definition create_handle :: "HandleValue \<Rightarrow> Session \<Rightarrow> nat \<times> Session" where
  "create_handle v s =
     (let (h, hs) = Handles_create v (variableHandles s) in (h, s\<lparr>variableHandles := hs\<rparr>))"

text \<open>An exception thrown inside a handler.\<close>

datatype error = TypeError

subsection \<open>initialize\<close>





subsection \<open>disconnect\<close>

record DisconnectArguments =
  suspendDebuggee :: "bool option"
  terminateDebuggee :: "bool option"

text \<open>A template literal prints an absent boolean as \<^verbatim>\<open>undefined\<close>.\<close>

fun template_bool :: "bool option \<Rightarrow> string" where
  "template_bool None = ''undefined''"
| "template_bool (Some True) = ''true''"
| "template_bool (Some False) = ''false''"

text \<open>
  The handler overrides the one of the base class and only writes a line to the console:
  it neither calls \<^verbatim>\<open>sendResponse\<close> nor anything else of the session.  The arguments
  of a disconnect request are optional in the protocol; the handler reads
  \<^verbatim>\<open>args.suspendDebuggee\<close> without a guard, so without arguments it throws a
  \<^verbatim>\<open>TypeError\<close> before it has written anything.
\<close>

definition disconnectRequest :: "DisconnectArguments option \<Rightarrow> Session \<Rightarrow> error + Session" where
  "disconnectRequest args s =
     (case args of
        None \<Rightarrow> Inl TypeError
      | Some a \<Rightarrow>
          Inr (s\<lparr>console_log := console_log s @
                 [''disconnectRequest suspend: '' @ template_bool (suspendDebuggee a)
                  @ '', terminate: '' @ template_bool (terminateDebuggee a)]\<rparr>))"

subsection \<open>breakpointLocations\<close>

record BreakpointLocationsArguments =
  source_path :: "string option"
  bl_line :: int
  bl_endLine :: "int option"

record BreakpointLocation =
  line :: int
  column :: "int option"

text \<open>\<^verbatim>\<open>if (args.source.path)\<close>: an absent path and the empty string are both falsy.\<close>

definition breakpointLocationsRequest ::
  "BreakpointLocationsArguments \<Rightarrow> Session \<Rightarrow> BreakpointLocation list \<times> Session"
where
  "breakpointLocationsRequest args s =
     (let breakpoints =
        (if source_path args \<noteq> None \<and> source_path args \<noteq> Some []
         then [\<lparr>line = bl_line args, column = None\<rparr>]
         else [])
      in (breakpoints, sendResponse ''breakpointLocations'' s))"

text \<open>
  What the specification asks of the same request, in its words: the (line, column)
  pairs of all recorded source-map entries of the file within the line range,
  deduplicated and sorted by (line, column).  A source-map entry is
  (file, line, column, pc).
\<close>

definition breakpoint_locations_spec ::
  "(string \<times> int \<times> int \<times> nat) list \<Rightarrow> string \<Rightarrow> int \<Rightarrow> int \<Rightarrow> (int \<times> int) list"
where
  "breakpoint_locations_spec entries file lo hi =
     sort (remdups (map (\<lambda>(f, l, c, pc). (l, c))
       (filter (\<lambda>(f, l, c, pc). f = file \<and> lo \<le> l \<and> l \<le> hi) entries)))"

subsection \<open>Presenting one value\<close>

fun scope_text :: "AvmValueScope \<Rightarrow> string" where
  "scope_text stack = ''stack''"
| "scope_text scratch = ''scratch''"

text \<open>
  \<^verbatim>\<open>convertAvmValue\<close>: a byte string is shown as \<^verbatim>\<open>0x\<close> and its hexadecimal digits and
  gets a fresh handle through which it can be expanded; anything else is shown as the
  decimal number \<^verbatim>\<open>uint || 0\<close>.
\<close>

definition convertAvmValue ::
  "AvmValueScope \<Rightarrow> AvmValue \<Rightarrow> int \<Rightarrow> Session \<Rightarrow> Variable \<times> Session"
where
  "convertAvmValue scope avmValue index s =
     (if type' avmValue = 1 then
        let bs = (case bytes avmValue of Some b \<Rightarrow> b | None \<Rightarrow> []);
            (ref, s') = create_handle (AvmValueReference scope index) s
        in (\<lparr>name = toString index,
             value' = ''0x'' @ to_hex bs,
             var_type = Some ''byte[]'',
             variablesReference = ref,
             namedVariables = Some (if isAsciiPrintable bs then 3 else 2),
             indexedVariables = Some (length bs),
             presentationHint = Some \<lparr>kind = Some ''data'', attributes = Some [''rawString'']\<rparr>,
             evaluateName = Some (scope_text scope @ ''['' @ toString index @ '']'')\<rparr>, s')
      else
        let u = (case uint avmValue of Some u \<Rightarrow> u | None \<Rightarrow> 0)
        in (\<lparr>name = toString index,
             value' = toString (int u),
             var_type = Some ''uint64'',
             variablesReference = 0,
             namedVariables = None,
             indexedVariables = None,
             presentationHint = None,
             evaluateName = Some (scope_text scope @ ''['' @ toString index @ '']'')\<rparr>, s))"

text \<open>\<^verbatim>\<open>values.map((value, index) => this.convertAvmValue(scope, value, index))\<close>\<close>

fun convertAvmValues ::
  "AvmValueScope \<Rightarrow> AvmValue list \<Rightarrow> int \<Rightarrow> Session \<Rightarrow> Variable list \<times> Session"
where
  "convertAvmValues scope [] index s = ([], s)"
| "convertAvmValues scope (v # vs) index s =
     (let (x, s1) = convertAvmValue scope v index s;
          (xs, s2) = convertAvmValues scope vs (index + 1) s1
      in (x # xs, s2))"

subsection \<open>scopes and variables\<close>

record Scope =
  scope_name :: string
  scope_variablesReference :: nat
  expensive :: bool

definition scopesRequest :: "Session \<Rightarrow> Scope list \<times> Session" where
  "scopesRequest s =
     (let (h1, s1) = create_handle execution s;
          (h2, s2) = create_handle chain s1
      in ([\<lparr>scope_name = ''Execution State'', scope_variablesReference = h1, expensive = False\<rparr>,
           \<lparr>scope_name = ''On-chain State'', scope_variablesReference = h2, expensive = False\<rparr>],
          sendResponse ''scopes'' s2))"

record VariablesArguments =
  va_variablesReference :: nat
  va_filter :: "VariablesFilter option"
  va_start :: "int option"
  va_count :: "int option"

text \<open>JavaScript's \<^verbatim>\<open>array[index]\<close>: \<^verbatim>\<open>undefined\<close> outside the array.\<close>

definition array_get :: "'a list \<Rightarrow> int \<Rightarrow> 'a option" where
  "array_get xs i = (if 0 \<le> i \<and> i < int (length xs) then Some (xs ! nat i) else None)"

text \<open>
  \<^verbatim>\<open>variablesRequest\<close>.  \<^verbatim>\<open>limitArray\<close> comes from \<^verbatim>\<open>./utils\<close>, which is not among the
  sources, and is a parameter.  The branch of the \<^verbatim>\<open>'chain'\<close> handle is empty in the
  source (its body is commented out), so \<^verbatim>\<open>variables\<close> stays the empty array.
  Expanding a reference to a value that is no longer there reads \<^verbatim>\<open>.type\<close> of
  \<^verbatim>\<open>undefined\<close>, a \<^verbatim>\<open>TypeError\<close>.
\<close>

definition variablesRequest ::
  "(byte list \<Rightarrow> byte list) \<Rightarrow> (Variable list \<Rightarrow> int option \<Rightarrow> int option \<Rightarrow> Variable list) \<Rightarrow>
   VariablesArguments \<Rightarrow> Session \<Rightarrow> error + (Variable list \<times> Session)"
where
  "variablesRequest genericHash limitArray args s =
     (case Handles_get (variableHandles s) (va_variablesReference args) of
        Some execution \<Rightarrow>
          (let values = stackValues s;
               (h1, s1) = create_handle (scope_handle stack) s;
               (h2, s2) = create_handle (scope_handle scratch) s1
           in Inr ([\<lparr>name = ''stack'',
                     value' = (if length values = 0 then ''[]'' else ''[...]''),
                     var_type = Some ''array'',
                     variablesReference = h1,
                     namedVariables = Some 1,
                     indexedVariables = Some (length values),
                     presentationHint = Some \<lparr>kind = Some ''data'', attributes = None\<rparr>,
                     evaluateName = None\<rparr>,
                    \<lparr>name = ''scratch'',
                     value' = ''[...]'',
                     var_type = Some ''array'',
                     variablesReference = h2,
                     namedVariables = None,
                     indexedVariables = Some 256,
                     presentationHint = Some \<lparr>kind = Some ''data'', attributes = None\<rparr>,
                     evaluateName = None\<rparr>],
                   sendResponse ''variables'' s2))
      | Some chain \<Rightarrow> Inr ([], sendResponse ''variables'' s)
      | Some (scope_handle stack) \<Rightarrow>
          (if va_filter args \<noteq> Some named then
             let (variables, s1) = convertAvmValues stack (stackValues s) 0 s
             in Inr (limitArray variables (va_start args) (va_count args),
                     sendResponse ''variables'' s1)
           else Inr ([], sendResponse ''variables'' s))
      | Some (scope_handle scratch) \<Rightarrow>
          (if va_filter args \<noteq> Some named then
             let (variables, s1) = convertAvmValues scratch (scratchValues s) 0 s
             in Inr (limitArray variables (va_start args) (va_count args),
                     sendResponse ''variables'' s1)
           else Inr ([], sendResponse ''variables'' s))
      | Some (AvmValueReference scope index) \<Rightarrow>
          (case array_get (case scope of stack \<Rightarrow> stackValues s | scratch \<Rightarrow> scratchValues s)
                  index of
             None \<Rightarrow> Inl TypeError
           | Some toExpand \<Rightarrow>
               Inr (limitArray (expandAvmValue genericHash toExpand (va_filter args))
                      (va_start args) (va_count args),
                    sendResponse ''variables'' s))
      | None \<Rightarrow> Inr ([], sendResponse ''variables'' s))"

subsection \<open>evaluate\<close>

text \<open>
  The two regular expressions of \<^verbatim>\<open>evaluateRequest\<close>,
  \<^verbatim>\<open>/^stack\[(-?\d+)\]$/\<close> and \<^verbatim>\<open>/^scratch\[(\d+)\]$/\<close>: the whole expression is the
  name, an opening bracket, an optional minus sign (for the stack only), one or more of
  the digits 0 to 9, and a closing bracket.  The result of \<^verbatim>\<open>exec\<close> is the text between
  the brackets, the only capture group.
\<close>

definition is_digit :: "char \<Rightarrow> bool" where
  "is_digit c = (c \<in> set ''0123456789'')"

definition index_regex_exec :: "string \<Rightarrow> bool \<Rightarrow> string \<Rightarrow> string option" where
  "index_regex_exec nm with_sign e =
     (let k = length nm + 1
      in if take k e = nm @ ''['' \<and> k < length e \<and> last e = CHR '']'' then
           let m = butlast (drop k e);
               ds = (if with_sign \<and> m \<noteq> [] \<and> hd m = CHR ''-'' then tl m else m)
           in if ds \<noteq> [] \<and> list_all is_digit ds then Some m else None
         else None)"

definition stack_regex_exec :: "string \<Rightarrow> string option" where
  "stack_regex_exec e = index_regex_exec ''stack'' True e"

definition scratch_regex_exec :: "string \<Rightarrow> string option" where
  "scratch_regex_exec e = index_regex_exec ''scratch'' False e"

text \<open>
  \<^verbatim>\<open>parseInt(m, 10)\<close> on a capture of these expressions: an optional minus sign and
  decimal digits.
\<close>

definition digit_value :: "char \<Rightarrow> nat" where
  "digit_value c = of_char c - 48"

definition parse_digits :: "string \<Rightarrow> nat" where
  "parse_digits ds = foldl (\<lambda>acc c. 10 * acc + digit_value c) 0 ds"

definition parseInt :: "string \<Rightarrow> int" where
  "parseInt m =
     (if m \<noteq> [] \<and> hd m = CHR ''-'' then - int (parse_digits (tl m)) else int (parse_digits m))"

text \<open>
  \<open>parseInt\<close> above is the integer the capture denotes.  JavaScript holds the index as
  the double nearest to it, which is that integer for every magnitude up to \<open>2 ^ 53\<close>
  and is rounded beyond.  The handler compares the index with 0 and with array lengths
  (below \<open>2 ^ 32\<close>) and adds an array length to it; the double has the sign of the
  integer and a magnitude of at least \<open>2 ^ 53\<close> whenever the integer has, so each of
  these comparisons comes out for the double as it does for the integer.  Where the
  rounding shows is the text of the index in a reply: up to \<open>2 ^ 53\<close> the template
  literal prints the decimal digits of the integer; beyond, it prints the rounded double
  (\<^verbatim>\<open>9007199254740992\<close> for the capture \<^verbatim>\<open>9007199254740993\<close>, \<^verbatim>\<open>1e+21\<close> for
  \<open>10 ^ 21\<close>, \<^verbatim>\<open>Infinity\<close> for more than 308 digits).  That text is the parameter
  \<open>largeNumberText\<close> of the model, a function of the integer.
\<close>

definition template_number :: "(int \<Rightarrow> string) \<Rightarrow> int \<Rightarrow> string" where
  "template_number largeNumberText index =
     (if \<bar>index\<bar> \<le> 2 ^ 53 then toString index else largeNumberText index)"

record EvaluateResponseBody =
  result :: string
  eval_type :: "string option"
  eval_variablesReference :: nat
  eval_presentationHint :: "VariablePresentationHint option"

text \<open>
  \<^verbatim>\<open>this.convertAvmValue(scope, values[pos], index)\<close>: outside the array the argument is
  \<^verbatim>\<open>undefined\<close>, and \<^verbatim>\<open>convertAvmValue\<close> throws a \<^verbatim>\<open>TypeError\<close> when it reads its
  \<^verbatim>\<open>type\<close>.
\<close>

definition convertAvmValue_at ::
  "AvmValueScope \<Rightarrow> AvmValue list \<Rightarrow> int \<Rightarrow> int \<Rightarrow> Session \<Rightarrow> error + (Variable \<times> Session)"
where
  "convertAvmValue_at scope values pos index s =
     (case array_get values pos of
        None \<Rightarrow> Inl TypeError
      | Some avmValue \<Rightarrow> Inr (convertAvmValue scope avmValue index s))"

text \<open>
  The first part of \<^verbatim>\<open>evaluateRequest\<close> computes the pair of \<^verbatim>\<open>reply\<close> and \<^verbatim>\<open>rv\<close>, each
  possibly \<^verbatim>\<open>undefined\<close>.
\<close>

definition evaluate_stack ::
  "(int \<Rightarrow> string) \<Rightarrow> string \<Rightarrow> Session \<Rightarrow>
   error + (string option \<times> Variable option \<times> Session)"
where
  "evaluate_stack largeNumberText m s =
     (let index0 = parseInt m;
          values = stackValues s;
          n = int (length values);
          adjustedIndex = index0 + n;
          reply0 = (if index0 < 0 \<and> adjustedIndex < 0
                    then Some (''stack['' @ template_number largeNumberText index0
                               @ ''] out of range'')
                    else None);
          index = (if index0 < 0 \<and> \<not> adjustedIndex < 0 then adjustedIndex else index0)
      in if 0 \<le> index \<and> index < n then
           (case convertAvmValue_at stack values index index s of
              Inl err \<Rightarrow> Inl err
            | Inr (rv, s') \<Rightarrow> Inr (reply0, Some rv, s'))
         else if index < 0 \<and> n + index \<ge> 0 then
           (case convertAvmValue_at stack values (n + index) index s of
              Inl err \<Rightarrow> Inl err
            | Inr (rv, s') \<Rightarrow> Inr (reply0, Some rv, s'))
         else Inr (Some (''stack['' @ template_number largeNumberText index
                           @ ''] out of range''), None, s))"

definition evaluate_scratch ::
  "(int \<Rightarrow> string) \<Rightarrow> string \<Rightarrow> Session \<Rightarrow>
   error + (string option \<times> Variable option \<times> Session)"
where
  "evaluate_scratch largeNumberText m s =
     (let index = parseInt m;
          values = scratchValues s
      in if 0 \<le> index \<and> index < int (length values) then
           (case convertAvmValue_at scratch values index index s of
              Inl err \<Rightarrow> Inl err
            | Inr (rv, s') \<Rightarrow> Inr (None, Some rv, s'))
         else Inr (Some (''scratch['' @ template_number largeNumberText index
                           @ ''] out of range''), None, s))"

text \<open>The second part builds the response body and sends it.\<close>

definition evaluate_body :: "string \<Rightarrow> string option \<Rightarrow> Variable option \<Rightarrow> EvaluateResponseBody" where
  "evaluate_body expression reply rv =
     (case rv of
        Some v \<Rightarrow>
          \<lparr>result = value' v, eval_type = var_type v,
           eval_variablesReference = variablesReference v,
           eval_presentationHint = presentationHint v\<rparr>
      | None \<Rightarrow>
          \<lparr>result = (case reply of
                       Some r \<Rightarrow> r
                     | None \<Rightarrow> ''unknown expression: '' @ [CHR 0x22] @ expression @ [CHR 0x22]),
           eval_type = None,
           eval_variablesReference = 0,
           eval_presentationHint = None\<rparr>)"

definition evaluateRequest ::
  "(int \<Rightarrow> string) \<Rightarrow> string \<Rightarrow> Session \<Rightarrow> error + (EvaluateResponseBody \<times> Session)"
where
  "evaluateRequest largeNumberText expression s =
     (let stackMatches = stack_regex_exec expression;
          scratchMatches = scratch_regex_exec expression;
          outcome =
            (case stackMatches of
               Some m \<Rightarrow> evaluate_stack largeNumberText m s
             | None \<Rightarrow>
                 (case scratchMatches of
                    Some m \<Rightarrow> evaluate_scratch largeNumberText m s
                  | None \<Rightarrow> Inr (None, None, s)))
      in case outcome of
           Inl err \<Rightarrow> Inl err
         | Inr (reply, rv, s') \<Rightarrow>
             Inr (evaluate_body expression reply rv, sendResponse ''evaluate'' s'))"

section \<open>The entry point of the adapter process\<close>

text \<open>
  \<^verbatim>\<open>run()\<close> reads the two environment variables and the command line, loads the assets
  and starts either a server or one session on the standard streams; the caller prints
  any error it throws and exits with status 1.  \<^verbatim>\<open>TEALDebuggingAssets.loadFromFiles\<close>
  (of \<^verbatim>\<open>./utils\<close>, not among the sources) and \<^verbatim>\<open>path.resolve\<close> are parameters.
\<close>

record Env =
  ALGORAND_SIMULATION_RESPONSE_PATH :: "string option"
  ALGORAND_TXN_GROUP_SOURCES_DESCRIPTION_PATH :: "string option"

datatype JsError = Error string | ERR_SOCKET_BAD_PORT int

datatype Started = server nat | single_session

datatype Printed = printed_text string | printed_error JsError

text \<open>\<^verbatim>\<open>/^--server=(\d{4,5})$/\<close>\<close>

definition server_regex_exec :: "string \<Rightarrow> string option" where
  "server_regex_exec val =
     (let m = drop 9 val
      in if take 9 val = ''--server='' \<and> (length m = 4 \<or> length m = 5) \<and> list_all is_digit m
         then Some m else None)"

definition parse_port :: "string list \<Rightarrow> int" where
  "parse_port args =
     foldl (\<lambda>port val. case server_regex_exec val of Some m \<Rightarrow> parseInt m | None \<Rightarrow> port) 0 args"

text \<open>
  \<^verbatim>\<open>run\<close> returns what it has printed with \<^verbatim>\<open>console.error\<close> and either the error it
  has thrown or what it has started, with the assets it has loaded.  A port of 65536 or
  more passes the pattern of the command line, and \<^verbatim>\<open>listen\<close> throws for it after the
  line about the port has been printed.
\<close>

definition run ::
  "(string \<Rightarrow> string \<Rightarrow> JsError + 'assets) \<Rightarrow> (string \<Rightarrow> string) \<Rightarrow> Env \<Rightarrow> string list \<Rightarrow>
   Printed list \<times> (JsError + Started \<times> 'assets)"
where
  "run loadFromFiles resolve env argv =
     (let port = parse_port (drop 2 argv)
      in case ALGORAND_SIMULATION_RESPONSE_PATH env of
           None \<Rightarrow> ([], Inl (Error ''missing ALGORAND_SIMULATION_RESPONSE_PATH''))
         | Some simulateResponsePath \<Rightarrow>
             (case ALGORAND_TXN_GROUP_SOURCES_DESCRIPTION_PATH env of
                None \<Rightarrow> ([], Inl (Error ''missing ALGORAND_TXN_GROUP_SOURCES_DESCRIPTION_PATH''))
              | Some txnGroupSourcesDescriptionPath \<Rightarrow>
                  (case loadFromFiles (resolve simulateResponsePath)
                          (resolve txnGroupSourcesDescriptionPath) of
                     Inl err \<Rightarrow> ([], Inl err)
                   | Inr assets \<Rightarrow>
                       if port > 0 then
                         ([printed_text (''waiting for debug protocol on port '' @ toString port)],
                          if port < 65536 then Inr (server (nat port), assets)
                          else Inl (ERR_SOCKET_BAD_PORT port))
                       else ([], Inr (single_session, assets)))))"

record 'assets Process =
  stderr :: "Printed list"
  exit_status :: "nat option"
  started :: "(Started \<times> 'assets) option"

text \<open>
  The statement at the end of the module,
  \<^verbatim>\<open>run().catch((err) => { console.error(err); process.exit(1); })\<close>.
\<close>

definition main ::
  "(string \<Rightarrow> string \<Rightarrow> JsError + 'assets) \<Rightarrow> (string \<Rightarrow> string) \<Rightarrow> Env \<Rightarrow> string list \<Rightarrow>
   'assets Process"
where
  "main loadFromFiles resolve env argv =
     (case run loadFromFiles resolve env argv of
        (printed, Inl err) \<Rightarrow>
          \<lparr>stderr = printed @ [printed_error err], exit_status = Some 1, started = None\<rparr>
      | (printed, Inr running) \<Rightarrow>
          \<lparr>stderr = printed, exit_status = None, started = Some running\<rparr>)"

section \<open>Concrete inputs\<close>

text \<open>
  A session stopped at line 35 of \<^verbatim>\<open>stack-scratch.teal\<close>, as the test
  \<^verbatim>\<open>Stack and scratch changes\<close> observes it: the stack holds 10, 30 and the byte
  strings \<^verbatim>\<open>1!\<close> and \<^verbatim>\<open>5!\<close>, all 256 scratch slots hold 0, and nothing has been sent.
\<close>

definition example_session :: Session where
  "example_session =
     \<lparr>variableHandles = Handles_new,
      stackValues =
        [\<lparr>type' = 2, bytes = None, uint = Some 10\<rparr>,
         \<lparr>type' = 2, bytes = None, uint = Some 30\<rparr>,
         \<lparr>type' = 1, bytes = Some [49, 33], uint = None\<rparr>,
         \<lparr>type' = 1, bytes = Some [53, 33], uint = None\<rparr>],
      scratchValues = replicate 256 \<lparr>type' = 2, bytes = None, uint = Some 0\<rparr>,
      outbox = [],
      console_log = []\<rparr>"

text \<open>
  The text JavaScript prints for the doubles nearest to two large indices,
  \<open>2 ^ 53 + 1\<close> and \<open>10 ^ 21\<close>; the examples use no other large index.
\<close>

definition sample_largeNumberText :: "int \<Rightarrow> string" where
  "sample_largeNumberText index =
     (if index = 9007199254740993 then ''9007199254740992''
      else if index = 1000000000000000000000 then ''1e+21''
      else ''Infinity'')"

text \<open>
  The locations of the source maps of the test \<^verbatim>\<open>Source mapping\<close>, as (file, line,
  column, pc); the program counters are not in the test and are numbered in order.
\<close>

definition sourcemap_test_entries :: "(string \<times> int \<times> int \<times> nat) list" where
  "sourcemap_test_entries =
     [(''sourcemap-test.teal'', 4, 1, 1), (''sourcemap-test.teal'', 4, 20, 2),
      (''sourcemap-test.teal'', 4, 27, 3), (''sourcemap-test.teal'', 4, 31, 4),
      (''lib.teal'', 2, 22, 5), (''lib.teal'', 2, 26, 6),
      (''sourcemap-test.teal'', 7, 5, 7), (''sourcemap-test.teal'', 7, 12, 8),
      (''sourcemap-test.teal'', 7, 19, 9), (''sourcemap-test.teal'', 8, 5, 10),
      (''sourcemap-test.teal'', 8, 12, 11), (''sourcemap-test.teal'', 8, 19, 12),
      (''sourcemap-test.teal'', 12, 5, 13), (''sourcemap-test.teal'', 13, 5, 14)]"

section \<open>Auxiliary facts\<close>

subsection \<open>Decimal text and its reading\<close>

lemma nth_digits_is_digit: "n < 10 \<Longrightarrow> is_digit (''0123456789'' ! n)"
  unfolding is_digit_def by (rule nth_mem) simp

lemma toString_nat_digits: "list_all is_digit (toString_nat n)"
proof (induction n rule: toString_nat.induct)
  case (1 n)
  show ?case
  proof (cases "n < 10")
    case True
    then show ?thesis
      by (subst toString_nat.simps) (simp add: nth_digits_is_digit)
  next
    case False
    have "n mod 10 < 10" by simp
    with False 1 show ?thesis
      by (subst toString_nat.simps) (simp add: nth_digits_is_digit)
  qed
qed

lemma toString_nat_not_Nil: "toString_nat n \<noteq> []"
  by (subst toString_nat.simps) simp

lemma digit_value_nth: "n < 10 \<Longrightarrow> digit_value (''0123456789'' ! n) = n"
proof -
  assume "n < 10"
  then have "n \<in> {0, 1, 2, 3, 4, 5, 6, 7, 8, 9}" by auto
  then show ?thesis
    by (auto simp: digit_value_def)
qed

lemma parse_digits_snoc: "parse_digits (ds @ [c]) = 10 * parse_digits ds + digit_value c"
  by (simp add: parse_digits_def)

lemma parse_digits_toString_nat: "parse_digits (toString_nat n) = n"
proof (induction n rule: toString_nat.induct)
  case (1 n)
  show ?case
  proof (cases "n < 10")
    case True
    then show ?thesis
      by (subst toString_nat.simps) (simp add: parse_digits_def digit_value_nth)
  next
    case False
    have "n mod 10 < 10" by simp
    with False 1 show ?thesis
      by (subst toString_nat.simps) (simp add: parse_digits_snoc digit_value_nth)
  qed
qed

lemma hd_toString_nat: "hd (toString_nat n) \<noteq> CHR ''-''"
proof -
  have "is_digit (hd (toString_nat n))"
    using toString_nat_digits [of n] toString_nat_not_Nil [of n]
    by (cases "toString_nat n") simp_all
  then show ?thesis by (auto simp: is_digit_def)
qed

text \<open>Reading the decimal text of an integer gives the integer back.\<close>

lemma parseInt_toString: "parseInt (toString i) = i"
  by (simp add: parseInt_def toString_def toString_nat_not_Nil hd_toString_nat
      parse_digits_toString_nat)

lemma toString_0: "toString 0 = ''0''"
  by (simp add: toString_def toString_nat.simps)

lemma toString_not_letters: "CHR ''a'' \<notin> set (toString i)"
proof -
  have "\<not> is_digit CHR ''a''" by (simp add: is_digit_def)
  moreover have "\<forall>c \<in> set (toString_nat n). is_digit c" for n
    using toString_nat_digits [of n] by (simp add: list_all_iff)
  ultimately show ?thesis by (auto simp: toString_def)
qed

subsection \<open>The regular expressions\<close>

text \<open>Every bracketed run of digits, with or without a minus sign, matches.\<close>

lemma index_regex_exec_bracket:
  assumes "ds \<noteq> []" and "list_all is_digit ds"
  shows "index_regex_exec nm True (nm @ ''['' @ ds @ '']'') = Some ds"
    and "index_regex_exec nm True (nm @ ''['' @ CHR ''-'' # ds @ '']'') = Some (CHR ''-'' # ds)"
proof -
  have nd: "hd ds \<noteq> CHR ''-''"
    using assms by (cases ds) (auto simp: is_digit_def)
  show "index_regex_exec nm True (nm @ ''['' @ ds @ '']'') = Some ds"
    using assms nd by (simp add: index_regex_exec_def Let_def butlast_append)
  show "index_regex_exec nm True (nm @ ''['' @ CHR ''-'' # ds @ '']'') = Some (CHR ''-'' # ds)"
    using assms by (simp add: index_regex_exec_def Let_def butlast_append)
qed

lemma stack_regex_exec_toString:
  "stack_regex_exec (''stack['' @ toString i @ '']'') = Some (toString i)"
proof (cases "i < 0")
  case True
  then show ?thesis
    using index_regex_exec_bracket(2) [of "toString_nat (nat (- i))" "''stack''"]
    by (simp add: stack_regex_exec_def toString_def toString_nat_not_Nil toString_nat_digits)
next
  case False
  then show ?thesis
    using index_regex_exec_bracket(1) [of "toString_nat (nat i)" "''stack''"]
    by (simp add: stack_regex_exec_def toString_def toString_nat_not_Nil toString_nat_digits)
qed

text \<open>An expression that matches the scratch pattern does not match the stack pattern.\<close>

lemma scratch_excludes_stack:
  assumes "scratch_regex_exec e = Some m"
  shows "stack_regex_exec e = None"
proof -
  from assms have "take (length ''scratch'' + 1) e = ''scratch'' @ ''[''"
    unfolding scratch_regex_exec_def index_regex_exec_def Let_def
    by (meson option.distinct(1))
  then have "e = (''scratch'' @ ''['') @ drop (length ''scratch'' + 1) e"
    by (metis append_take_drop_id)
  then obtain r where "e = ''scratch['' @ r" by auto
  then show ?thesis
    by (simp add: stack_regex_exec_def index_regex_exec_def)
qed

subsection \<open>The evaluate handler by cases\<close>

lemma convertAvmValue_at_in_range:
  "0 \<le> pos \<Longrightarrow> pos < int (length values) \<Longrightarrow>
   convertAvmValue_at scope values pos index s =
     Inr (convertAvmValue scope (values ! nat pos) index s)"
  by (simp add: convertAvmValue_at_def array_get_def)

lemma evaluate_stack_total: "\<exists>r. evaluate_stack T m s = Inr r"
  by (auto simp: evaluate_stack_def Let_def convertAvmValue_at_in_range split: prod.splits)

lemma evaluate_scratch_total: "\<exists>r. evaluate_scratch T m s = Inr r"
  by (auto simp: evaluate_scratch_def Let_def convertAvmValue_at_in_range split: prod.splits)

lemma evaluateRequest_total: "\<exists>r. evaluateRequest T e s = Inr r"
proof -
  have "\<exists>r. (case stack_regex_exec e of
               Some m \<Rightarrow> evaluate_stack T m s
             | None \<Rightarrow>
                 (case scratch_regex_exec e of
                    Some m \<Rightarrow> evaluate_scratch T m s
                  | None \<Rightarrow> Inr (None, None, s))) = Inr r"
    using evaluate_stack_total evaluate_scratch_total by (auto split: option.splits)
  then obtain reply rv s' where
    "(case stack_regex_exec e of
               Some m \<Rightarrow> evaluate_stack T m s
             | None \<Rightarrow>
                 (case scratch_regex_exec e of
                    Some m \<Rightarrow> evaluate_scratch T m s
                  | None \<Rightarrow> Inr (None, None, s))) = Inr (reply, rv, s')"
    by (metis prod_cases3)
  then show ?thesis by (simp add: evaluateRequest_def)
qed

lemma evaluate_stack_out_of_range:
  assumes "parseInt m < - int (length (stackValues s)) \<or> int (length (stackValues s)) \<le> parseInt m"
  shows "evaluate_stack T m s =
           Inr (Some (''stack['' @ template_number T (parseInt m) @ ''] out of range''),
                None, s)"
  using assms by (auto simp: evaluate_stack_def Let_def)

lemma evaluate_scratch_out_of_range:
  assumes "\<not> (0 \<le> parseInt m \<and> parseInt m < int (length (scratchValues s)))"
  shows "evaluate_scratch T m s =
           Inr (Some (''scratch['' @ template_number T (parseInt m) @ ''] out of range''),
                None, s)"
  using assms by (auto simp: evaluate_scratch_def Let_def)

lemma evaluate_stack_negative:
  assumes "- int (length (stackValues s)) \<le> parseInt m" and "parseInt m \<le> - 1"
  shows "evaluate_stack T m s =
           (let n = int (length (stackValues s));
                (rv, s') = convertAvmValue stack (stackValues s ! nat (n + parseInt m))
                             (n + parseInt m) s
            in Inr (None, Some rv, s'))"
  using assms
  by (auto simp: evaluate_stack_def Let_def convertAvmValue_at_in_range add.commute
      split: prod.splits)

lemma convertAvmValue_value:
  "value' (fst (convertAvmValue scope x index s)) =
     (if type' x = 1 then ''0x'' @ to_hex (case bytes x of Some b \<Rightarrow> b | None \<Rightarrow> [])
      else toString (int (case uint x of Some u \<Rightarrow> u | None \<Rightarrow> 0)))"
  by (simp add: convertAvmValue_def Let_def split: prod.splits)

lemma template_number_safe:
  "\<bar>i\<bar> \<le> 2 ^ 53 \<Longrightarrow> template_number T i = toString i"
  by (simp add: template_number_def)

lemma stack_1000: "stack_regex_exec ''stack[1000]'' = Some ''1000''"
  by (simp add: stack_regex_exec_def index_regex_exec_def is_digit_def)

lemma parseInt_1000: "parseInt ''1000'' = 1000"
  by (simp add: parseInt_def parse_digits_def digit_value_def)

lemma toString_1000: "toString 1000 = ''1000''"
  by (simp add: toString_def toString_nat.simps)

text \<open>The console is written by no part of the evaluate handler and read by none.\<close>

lemma convertAvmValue_console:
  "convertAvmValue scope v i (s\<lparr>console_log := c\<rparr>) =
     (fst (convertAvmValue scope v i s), (snd (convertAvmValue scope v i s))\<lparr>console_log := c\<rparr>)"
  by (simp add: convertAvmValue_def create_handle_def Let_def split: prod.splits)

lemma convertAvmValue_at_console:
  "convertAvmValue_at scope vs p i (s\<lparr>console_log := c\<rparr>) =
     map_sum id (\<lambda>(v, s'). (v, s'\<lparr>console_log := c\<rparr>)) (convertAvmValue_at scope vs p i s)"
  by (simp add: convertAvmValue_at_def convertAvmValue_console split: option.splits prod.splits)

lemma evaluate_stack_console:
  "evaluate_stack T m (s\<lparr>console_log := c\<rparr>) =
     map_sum id (\<lambda>(r, v, s'). (r, v, s'\<lparr>console_log := c\<rparr>)) (evaluate_stack T m s)"
  by (simp add: evaluate_stack_def convertAvmValue_at_console Let_def
      split: sum.splits prod.splits)

lemma evaluate_scratch_console:
  "evaluate_scratch T m (s\<lparr>console_log := c\<rparr>) =
     map_sum id (\<lambda>(r, v, s'). (r, v, s'\<lparr>console_log := c\<rparr>)) (evaluate_scratch T m s)"
  by (simp add: evaluate_scratch_def convertAvmValue_at_console Let_def
      split: sum.splits prod.splits)

lemma evaluateRequest_console:
  "evaluateRequest T e (s\<lparr>console_log := c\<rparr>) =
     map_sum id (\<lambda>(b, s'). (b, s'\<lparr>console_log := c\<rparr>)) (evaluateRequest T e s)"
  by (simp add: evaluateRequest_def evaluate_stack_console evaluate_scratch_console
      sendResponse_def Let_def split: option.splits sum.splits prod.splits)

subsection \<open>Expanded values\<close>

lemma length_b32_group: "length (b32_group a b c d e) = 8"
  by (simp add: b32_group_def)

text \<open>Base 32 turns every started group of five bytes into eight characters.\<close>

lemma length_base32_encode: "length (base32_encode xs) = 8 * ((length xs + 4) div 5)"
proof (induction xs rule: base32_encode.induct)
  case (6 a b c d e rest)
  have "(9 + length rest) div 5 = 1 + (length rest + 4) div 5" by arith
  with 6 show ?case by (simp add: length_b32_group)
qed (simp_all add: length_b32_group)

lemma length_encodeAddress:
  "length address = 32 \<Longrightarrow> 32 \<le> length (genericHash address) \<Longrightarrow>
   length (encodeAddress genericHash address) = 58"
  by (simp add: encodeAddress_def length_base32_encode)

lemma expandAvmValue_nonempty:
  assumes "type' v = 1" and "bytes v = Some bs" and "bs \<noteq> []"
  shows "expandAvmValue H v None =
      [format_child ''hex'' ''string'' (to_hex bs),
       format_child ''base64'' ''string'' (to_base64 bs)]
      @ (if isAsciiPrintable bs then [format_child ''ascii'' ''string'' (to_ascii bs)] else [])
      @ (if length bs = 32 then [format_child ''address'' ''string'' (encodeAddress H bs)] else [])
      @ [format_child ''length'' ''number'' (toString (int (length bs)))]
      @ map (\<lambda>i. format_child (toString (int i)) ''uint8'' (toString (int (unat (bs ! i)))))
          [0..<length bs]"
  using assms by (simp add: expandAvmValue_def)

lemma expandAvmValue_names:
  assumes "type' v = 1" and "bytes v = Some bs" and "bs \<noteq> []"
  shows "map name (expandAvmValue H v None) =
      [''hex'', ''base64'']
      @ (if isAsciiPrintable bs then [''ascii''] else [])
      @ (if length bs = 32 then [''address''] else [])
      @ [''length'']
      @ map (\<lambda>i. toString (int i)) [0..<length bs]"
  by (simp add: expandAvmValue_nonempty [OF assms] format_child_def comp_def)

lemma ascii_child_iff:
  assumes "type' v = 1" and "bytes v = Some bs" and "bs \<noteq> []"
  shows "''ascii'' \<in> set (map name (expandAvmValue H v None)) \<longleftrightarrow> isAsciiPrintable bs"
proof -
  have "''ascii'' \<noteq> toString i" for i
    using toString_not_letters [of i] by (metis list.set_intros(1))
  then show ?thesis
    unfolding expandAvmValue_names [OF assms] by auto
qed

lemma address_child_iff:
  assumes "type' v = 1" and "bytes v = Some bs" and "bs \<noteq> []"
  shows "''address'' \<in> set (map name (expandAvmValue H v None)) \<longleftrightarrow> length bs = 32"
proof -
  have "''address'' \<noteq> toString i" for i
    using toString_not_letters [of i] by (metis list.set_intros(1))
  then show ?thesis
    unfolding expandAvmValue_names [OF assms] by auto
qed

lemmas render_defs =
  expandAvmValue_def isAsciiPrintable_def format_child_def to_hex_def hex_of_byte_def
  b64_char_def to_ascii_def char_of_def toString_def toString_nat.simps upt_conv_Cons
  bit_Suc_0_iff

lemma expandAvmValue_1bang:
  "map (\<lambda>c. (name c, value' c))
     (expandAvmValue H \<lparr>type' = 1, bytes = Some [49, 33], uint = None\<rparr> None) =
   [(''hex'', ''3121''), (''base64'', ''MSE=''), (''ascii'', ''1!''), (''length'', ''2''),
    (''0'', ''49''), (''1'', ''33'')]"
  by (simp add: render_defs)

lemma breakpoint_locations_spec_sourcemap_test:
  "breakpoint_locations_spec sourcemap_test_entries ''sourcemap-test.teal'' 0 100 =
     [(4, 1), (4, 20), (4, 27), (4, 31), (7, 5), (7, 12), (7, 19), (8, 5), (8, 12), (8, 19),
      (12, 5), (13, 5)]"
  by (simp add: breakpoint_locations_spec_def sourcemap_test_entries_def)

section \<open>The claims of the specification\<close>

subsection \<open>Breakpoint locations\<close>

text \<open>
  C1.  The specification asks that \<^verbatim>\<open>breakpointLocationsRequest\<close> list the (line, column)
  pairs recorded in the source maps for the file within the line range, deduplicated and
  sorted.  The handler does not look at any source map: for the request of the test
  \<^verbatim>\<open>should return correct breakpoint locations\<close> (lines 0 to 100 of
  \<^verbatim>\<open>sourcemap-test.teal\<close>) it answers with the single location "line 0, no column",
  where the source map holds the twelve locations the test expects.
\<close>

theorem breakpointLocationsRequest_ignores_source_map:
  "fst (breakpointLocationsRequest
          \<lparr>source_path = Some ''sourcemap-test.teal'', bl_line = 0, bl_endLine = Some 100\<rparr>
          example_session) = [\<lparr>line = 0, column = None\<rparr>]
   \<and> breakpoint_locations_spec sourcemap_test_entries ''sourcemap-test.teal'' 0 100 =
      [(4, 1), (4, 20), (4, 27), (4, 31), (7, 5), (7, 12), (7, 19), (8, 5), (8, 12), (8, 19),
       (12, 5), (13, 5)]"
  by (simp add: breakpointLocationsRequest_def breakpoint_locations_spec_sourcemap_test)

subsection \<open>Scopes and their children\<close>

text \<open>
  C2.  In every session the scopes request answers with exactly the two scopes
  \<^verbatim>\<open>Execution State\<close> and \<^verbatim>\<open>On-chain State\<close>, and a variables request on the reference of
  the first answers with the two children \<^verbatim>\<open>stack\<close> and \<^verbatim>\<open>scratch\<close>.  A variables request
  on the reference of \<^verbatim>\<open>On-chain State\<close> answers with no children at all, whatever the
  applications of the trace are: the specification asks for one child per application.
\<close>

theorem scopes_and_their_children:
  "\<exists>h1 h2 s1.
     scopesRequest s =
       ([\<lparr>scope_name = ''Execution State'', scope_variablesReference = h1, expensive = False\<rparr>,
         \<lparr>scope_name = ''On-chain State'', scope_variablesReference = h2, expensive = False\<rparr>],
        s1)
     \<and> (\<exists>vars s2.
           variablesRequest H L
             \<lparr>va_variablesReference = h1, va_filter = f, va_start = a, va_count = c\<rparr> s1 =
             Inr (vars, s2)
           \<and> map name vars = [''stack'', ''scratch''])
     \<and> variablesRequest H L
           \<lparr>va_variablesReference = h2, va_filter = f, va_start = a, va_count = c\<rparr> s1 =
         Inr ([], sendResponse ''variables'' s1)"
  by (simp add: scopesRequest_def variablesRequest_def create_handle_def Handles_create_def
      Handles_get_def sendResponse_def Let_def)

subsection \<open>Expanding a byte string\<close>

text \<open>
  C3, as amended.  Expanding a byte string that is not empty, with no filter, yields in
  this order: \<^verbatim>\<open>hex\<close> (the hexadecimal digits, without a \<^verbatim>\<open>0x\<close> prefix), \<^verbatim>\<open>base64\<close>,
  \<^verbatim>\<open>ascii\<close> if and only if every byte is printable ASCII, \<^verbatim>\<open>address\<close> if and only if
  there are exactly 32 bytes (and then the address has 58 characters, the digest being 32
  bytes long), \<^verbatim>\<open>length\<close>, and one child per byte named by its index.  For the two bytes
  \<^verbatim>\<open>1!\<close> the children are hex = 3121, base64 = MSE=, ascii = 1!, length = 2, 0 = 49 and
  1 = 33, with no address.
\<close>

theorem expandAvmValue_bytes_children:
  assumes "type' v = 1" and "bytes v = Some bs" and "bs \<noteq> []" and "length (H bs) = 32"
  shows "expandAvmValue H v None =
      [format_child ''hex'' ''string'' (to_hex bs),
       format_child ''base64'' ''string'' (to_base64 bs)]
      @ (if isAsciiPrintable bs then [format_child ''ascii'' ''string'' (to_ascii bs)] else [])
      @ (if length bs = 32 then [format_child ''address'' ''string'' (encodeAddress H bs)] else [])
      @ [format_child ''length'' ''number'' (toString (int (length bs)))]
      @ map (\<lambda>i. format_child (toString (int i)) ''uint8'' (toString (int (unat (bs ! i)))))
          [0..<length bs]
    \<and> (''ascii'' \<in> set (map name (expandAvmValue H v None)) \<longleftrightarrow> isAsciiPrintable bs)
    \<and> (''address'' \<in> set (map name (expandAvmValue H v None)) \<longleftrightarrow> length bs = 32)
    \<and> (length bs = 32 \<longrightarrow> length (encodeAddress H bs) = 58)
    \<and> map (\<lambda>c. (name c, value' c))
         (expandAvmValue H \<lparr>type' = 1, bytes = Some [49, 33], uint = None\<rparr> None) =
       [(''hex'', ''3121''), (''base64'', ''MSE=''), (''ascii'', ''1!''), (''length'', ''2''),
        (''0'', ''49''), (''1'', ''33'')]"
  using expandAvmValue_nonempty [OF assms(1-3)] ascii_child_iff [OF assms(1-3)]
    address_child_iff [OF assms(1-3)] length_encodeAddress [of bs H] assms(4)
    expandAvmValue_1bang
  by simp

text \<open>The theorem at a value of 32 bytes, with a digest function that returns 32 bytes.\<close>

theorem expandAvmValue_bytes_children_witness:
  "type' \<lparr>type' = 1, bytes = Some (replicate 32 65), uint = None\<rparr> = 1
   \<and> bytes \<lparr>type' = 1, bytes = Some (replicate 32 65), uint = None\<rparr> = Some (replicate 32 65)
   \<and> replicate 32 (65 :: byte) \<noteq> []
   \<and> length (replicate 32 (0 :: byte)) = 32
   \<and> length (replicate 32 (65 :: byte)) = 32
   \<and> ''address'' \<in> set (map name (expandAvmValue (\<lambda>_. replicate 32 0)
          \<lparr>type' = 1, bytes = Some (replicate 32 65), uint = None\<rparr> None))
   \<and> length (encodeAddress (\<lambda>_. replicate 32 0) (replicate 32 65)) = 58"
proof -
  let ?v = "\<lparr>type' = 1, bytes = Some (replicate 32 65), uint = None\<rparr>"
  let ?H = "\<lambda>_ :: byte list. replicate 32 (0 :: byte)"
  have h1: "type' ?v = 1" by simp
  have h2: "bytes ?v = Some (replicate 32 65)" by simp
  have h3: "replicate 32 (65 :: byte) \<noteq> []" by simp
  have h4: "length (?H (replicate 32 65)) = 32" by simp
  have h5: "length (replicate 32 (65 :: byte)) = 32" by simp
  note r = expandAvmValue_bytes_children [of ?v "replicate 32 65" ?H, OF h1 h2 h3 h4]
  have a: "''address'' \<in> set (map name (expandAvmValue ?H ?v None))"
    using r [THEN conjunct2, THEN conjunct2, THEN conjunct1] h5 by blast
  have b: "length (encodeAddress ?H (replicate 32 65)) = 58"
    using r [THEN conjunct2, THEN conjunct2, THEN conjunct2, THEN conjunct1] h5 by blast
  show ?thesis using h1 h2 h3 h5 a b by simp
qed

text \<open>
  As the specification states it, the claim fails twice: the \<^verbatim>\<open>hex\<close> child of \<^verbatim>\<open>1!\<close> is
  \<^verbatim>\<open>3121\<close> and not \<^verbatim>\<open>0x3121\<close>, and the empty byte string has no \<^verbatim>\<open>hex\<close> child.
\<close>

theorem expandAvmValue_bytes_counterexample:
  "map (\<lambda>c. (name c, value' c))
     (expandAvmValue (\<lambda>_. []) \<lparr>type' = 1, bytes = Some [49, 33], uint = None\<rparr> None) \<noteq>
   [(''hex'', ''0x3121''), (''base64'', ''MSE=''), (''ascii'', ''1!''), (''length'', ''2''),
    (''0'', ''49''), (''1'', ''33'')]
   \<and> ''hex'' \<notin> set (map name
         (expandAvmValue (\<lambda>_. []) \<lparr>type' = 1, bytes = Some [], uint = None\<rparr> None))"
  by (simp add: render_defs)

subsection \<open>Evaluating hover expressions\<close>

text \<open>
  C4.  When the expression matches the stack pattern and its index lies below minus the
  stack length or at or above the stack length, or matches the scratch pattern and its
  index is outside the scratch array, the request succeeds: the handler ends without an
  error and sends its response, the variables reference is 0, and the result is the
  text \<^verbatim>\<open>stack[\<close>, the index as the template literal prints it, \<^verbatim>\<open>] out of range\<close> (or
  the same with \<^verbatim>\<open>scratch\<close>).  The index is printed with its decimal digits when its
  magnitude is at most \<open>2 ^ 53\<close>.  With fewer than 1001 stack entries, \<^verbatim>\<open>stack[1000]\<close>
  gives the text \<^verbatim>\<open>stack[1000] out of range\<close>.
\<close>

theorem evaluate_out_of_range:
  "(stack_regex_exec e = Some m
      \<and> (parseInt m < - int (length (stackValues s)) \<or> int (length (stackValues s)) \<le> parseInt m)
    \<longrightarrow> evaluateRequest T e s =
          Inr (\<lparr>result = ''stack['' @ template_number T (parseInt m) @ ''] out of range'',
                eval_type = None, eval_variablesReference = 0, eval_presentationHint = None\<rparr>,
               sendResponse ''evaluate'' s))
   \<and> (scratch_regex_exec e = Some m
      \<and> \<not> (0 \<le> parseInt m \<and> parseInt m < int (length (scratchValues s)))
    \<longrightarrow> evaluateRequest T e s =
          Inr (\<lparr>result = ''scratch['' @ template_number T (parseInt m) @ ''] out of range'',
                eval_type = None, eval_variablesReference = 0, eval_presentationHint = None\<rparr>,
               sendResponse ''evaluate'' s))
   \<and> (\<bar>parseInt m\<bar> \<le> 2 ^ 53 \<longrightarrow> template_number T (parseInt m) = toString (parseInt m))
   \<and> (length (stackValues s) < 1001
    \<longrightarrow> evaluateRequest T ''stack[1000]'' s =
          Inr (\<lparr>result = ''stack[1000] out of range'',
                eval_type = None, eval_variablesReference = 0, eval_presentationHint = None\<rparr>,
               sendResponse ''evaluate'' s))"
proof (intro conjI impI)
  assume a: "stack_regex_exec e = Some m
      \<and> (parseInt m < - int (length (stackValues s)) \<or> int (length (stackValues s)) \<le> parseInt m)"
  then show "evaluateRequest T e s =
          Inr (\<lparr>result = ''stack['' @ template_number T (parseInt m) @ ''] out of range'',
                eval_type = None, eval_variablesReference = 0, eval_presentationHint = None\<rparr>,
               sendResponse ''evaluate'' s)"
    using evaluate_stack_out_of_range [where m = m and s = s and T = T]
    by (simp add: evaluateRequest_def evaluate_body_def)
next
  assume a: "scratch_regex_exec e = Some m
      \<and> \<not> (0 \<le> parseInt m \<and> parseInt m < int (length (scratchValues s)))"
  then have "stack_regex_exec e = None" by (simp add: scratch_excludes_stack)
  with a show "evaluateRequest T e s =
          Inr (\<lparr>result = ''scratch['' @ template_number T (parseInt m) @ ''] out of range'',
                eval_type = None, eval_variablesReference = 0, eval_presentationHint = None\<rparr>,
               sendResponse ''evaluate'' s)"
    using evaluate_scratch_out_of_range [where m = m and s = s and T = T]
    by (simp add: evaluateRequest_def evaluate_body_def)
next
  assume "\<bar>parseInt m\<bar> \<le> 2 ^ 53"
  then show "template_number T (parseInt m) = toString (parseInt m)"
    by (rule template_number_safe)
next
  assume "length (stackValues s) < 1001"
  then have "int (length (stackValues s)) \<le> parseInt ''1000''"
    by (simp add: parseInt_1000)
  then show "evaluateRequest T ''stack[1000]'' s =
          Inr (\<lparr>result = ''stack[1000] out of range'',
                eval_type = None, eval_variablesReference = 0, eval_presentationHint = None\<rparr>,
               sendResponse ''evaluate'' s)"
    using evaluate_stack_out_of_range [where m = "''1000''" and s = s and T = T]
    by (simp add: evaluateRequest_def evaluate_body_def stack_1000 parseInt_1000 toString_1000
        template_number_def)
qed

text \<open>
  The theorem in the example session (four stack entries, 256 scratch slots), at
  \<^verbatim>\<open>stack[-5]\<close>, \<^verbatim>\<open>scratch[256]\<close>, \<^verbatim>\<open>stack[1000]\<close> and at the two large indices
  \<^verbatim>\<open>stack[9007199254740993]\<close> and \<^verbatim>\<open>scratch[1000000000000000000000]\<close>, whose replies show
  the rounded index.
\<close>

theorem evaluate_out_of_range_witness:
  "stack_regex_exec ''stack[-5]'' = Some ''-5''
   \<and> parseInt ''-5'' < - int (length (stackValues example_session))
   \<and> \<bar>parseInt ''-5''\<bar> \<le> 2 ^ 53
   \<and> scratch_regex_exec ''scratch[256]'' = Some ''256''
   \<and> \<not> (0 \<le> parseInt ''256'' \<and> parseInt ''256'' < int (length (scratchValues example_session)))
   \<and> length (stackValues example_session) < 1001
   \<and> evaluateRequest sample_largeNumberText ''stack[-5]'' example_session =
          Inr (\<lparr>result = ''stack[-5] out of range'',
                eval_type = None, eval_variablesReference = 0, eval_presentationHint = None\<rparr>,
               sendResponse ''evaluate'' example_session)
   \<and> evaluateRequest sample_largeNumberText ''scratch[256]'' example_session =
          Inr (\<lparr>result = ''scratch[256] out of range'',
                eval_type = None, eval_variablesReference = 0, eval_presentationHint = None\<rparr>,
               sendResponse ''evaluate'' example_session)
   \<and> evaluateRequest sample_largeNumberText ''stack[1000]'' example_session =
          Inr (\<lparr>result = ''stack[1000] out of range'',
                eval_type = None, eval_variablesReference = 0, eval_presentationHint = None\<rparr>,
               sendResponse ''evaluate'' example_session)
   \<and> evaluateRequest sample_largeNumberText ''stack[9007199254740993]'' example_session =
          Inr (\<lparr>result = ''stack[9007199254740992] out of range'',
                eval_type = None, eval_variablesReference = 0, eval_presentationHint = None\<rparr>,
               sendResponse ''evaluate'' example_session)
   \<and> evaluateRequest sample_largeNumberText ''scratch[1000000000000000000000]'' example_session =
          Inr (\<lparr>result = ''scratch[1e+21] out of range'',
                eval_type = None, eval_variablesReference = 0, eval_presentationHint = None\<rparr>,
               sendResponse ''evaluate'' example_session)"
proof -
  have h1: "stack_regex_exec ''stack[-5]'' = Some ''-5''"
    by (simp add: stack_regex_exec_def index_regex_exec_def is_digit_def)
  have h2: "parseInt ''-5'' = - 5"
    by (simp add: parseInt_def parse_digits_def digit_value_def)
  have h3: "scratch_regex_exec ''scratch[256]'' = Some ''256''"
    by (simp add: scratch_regex_exec_def index_regex_exec_def is_digit_def)
  have h4: "parseInt ''256'' = 256"
    by (simp add: parseInt_def parse_digits_def digit_value_def)
  have h5: "length (stackValues example_session) = 4"
    by (simp add: example_session_def)
  have h6: "length (scratchValues example_session) = 256"
    by (simp add: example_session_def)
  have h7: "stack_regex_exec ''stack[9007199254740993]'' = Some ''9007199254740993''"
    by (simp add: stack_regex_exec_def index_regex_exec_def is_digit_def)
  have h8: "parseInt ''9007199254740993'' = 9007199254740993"
    by (simp add: parseInt_def parse_digits_def digit_value_def)
  have h9: "scratch_regex_exec ''scratch[1000000000000000000000]'' =
      Some ''1000000000000000000000''"
    by (simp add: scratch_regex_exec_def index_regex_exec_def is_digit_def)
  have h10: "parseInt ''1000000000000000000000'' = 1000000000000000000000"
    by (simp add: parseInt_def parse_digits_def digit_value_def)
  have t1: "template_number sample_largeNumberText (- 5) = ''-5''"
    and t2: "template_number sample_largeNumberText 256 = ''256''"
    and t3: "template_number sample_largeNumberText 9007199254740993 = ''9007199254740992''"
    and t4: "template_number sample_largeNumberText 1000000000000000000000 = ''1e+21''"
    by (simp_all add: template_number_def sample_largeNumberText_def toString_def
        toString_nat.simps)
  have u: "toString (- 5) = ''-5''" "toString 256 = ''256''"
    by (simp_all add: toString_def toString_nat.simps)
  show ?thesis
    using
      evaluate_out_of_range [where e = "''stack[-5]''" and m = "''-5''"
        and s = example_session and T = sample_largeNumberText]
      evaluate_out_of_range [where e = "''scratch[256]''" and m = "''256''"
        and s = example_session and T = sample_largeNumberText]
      evaluate_out_of_range [where e = "''stack[9007199254740993]''"
        and m = "''9007199254740993''" and s = example_session and T = sample_largeNumberText]
      evaluate_out_of_range [where e = "''scratch[1000000000000000000000]''"
        and m = "''1000000000000000000000''" and s = example_session
        and T = sample_largeNumberText]
    by (simp add: h1 h2 h3 h4 h5 h6 h7 h8 h9 h10 t1 t2 t3 t4 u)
qed

text \<open>
  C5.  For a stack of \<open>n\<close> entries and an index \<open>i\<close> from \<open>- n\<close> to \<open>- 1\<close>, evaluating
  \<^verbatim>\<open>stack[i]\<close> presents the entry at position \<open>n + i\<close> from the bottom: the response is
  built from that entry, its result is the text of that entry (\<^verbatim>\<open>0x\<close> and the hexadecimal
  digits of a byte string, the decimal digits of a number), and for \<open>i = - 1\<close> the entry
  is the last one, the top of the stack.
\<close>

theorem evaluate_stack_negative_index:
  assumes "- int (length (stackValues s)) \<le> i" and "i \<le> - 1"
  shows "evaluateRequest T (''stack['' @ toString i @ '']'') s =
           (let n = int (length (stackValues s));
                (rv, s') = convertAvmValue stack (stackValues s ! nat (n + i)) (n + i) s
            in Inr (\<lparr>result = value' rv, eval_type = var_type rv,
                     eval_variablesReference = variablesReference rv,
                     eval_presentationHint = presentationHint rv\<rparr>,
                    sendResponse ''evaluate'' s'))
       \<and> (\<exists>body s'. evaluateRequest T (''stack['' @ toString i @ '']'') s = Inr (body, s')
             \<and> result body =
                (let x = stackValues s ! nat (int (length (stackValues s)) + i)
                 in if type' x = 1
                    then ''0x'' @ to_hex (case bytes x of Some b \<Rightarrow> b | None \<Rightarrow> [])
                    else toString (int (case uint x of Some u \<Rightarrow> u | None \<Rightarrow> 0))))
       \<and> (i = - 1 \<longrightarrow>
             stackValues s ! nat (int (length (stackValues s)) + i) = last (stackValues s))"
proof -
  let ?n = "int (length (stackValues s))"
  let ?x = "stackValues s ! nat (?n + i)"
  obtain rv s' where c: "convertAvmValue stack ?x (?n + i) s = (rv, s')"
    by (cases "convertAvmValue stack ?x (?n + i) s")
  have e: "evaluate_stack T (toString i) s = Inr (None, Some rv, s')"
    using evaluate_stack_negative [where s = s and m = "toString i" and T = T] assms c
    by (simp add: parseInt_toString)
  have r: "evaluateRequest T (''stack['' @ toString i @ '']'') s =
      Inr (\<lparr>result = value' rv, eval_type = var_type rv,
                     eval_variablesReference = variablesReference rv,
                     eval_presentationHint = presentationHint rv\<rparr>,
                    sendResponse ''evaluate'' s')"
    unfolding evaluateRequest_def stack_regex_exec_toString
    by (simp add: e evaluate_body_def)
  have v: "value' rv = (if type' ?x = 1
                    then ''0x'' @ to_hex (case bytes ?x of Some b \<Rightarrow> b | None \<Rightarrow> [])
                    else toString (int (case uint ?x of Some u \<Rightarrow> u | None \<Rightarrow> 0)))"
    using convertAvmValue_value [of stack ?x "?n + i" s] c by simp
  have l: "i = - 1 \<longrightarrow> ?x = last (stackValues s)"
  proof
    assume i: "i = - 1"
    with assms have ne: "stackValues s \<noteq> []" by auto
    have "nat (?n + i) = length (stackValues s) - 1" using i by simp
    then show "?x = last (stackValues s)" using ne by (simp add: last_conv_nth)
  qed
  show ?thesis using r c v l by (simp add: Let_def)
qed

text \<open>
  The theorem in the example session: \<^verbatim>\<open>stack[-1]\<close> presents the byte string \<^verbatim>\<open>5!\<close> on
  top of the stack and registers a reference to stack position 3 for it.
\<close>

theorem evaluate_stack_negative_index_witness:
  "- int (length (stackValues example_session)) \<le> - 1 \<and> (- 1 :: int) \<le> - 1
   \<and> evaluateRequest sample_largeNumberText ''stack[-1]'' example_session =
       Inr (\<lparr>result = ''0x3521'', eval_type = Some ''byte[]'', eval_variablesReference = 1000,
             eval_presentationHint =
               Some \<lparr>kind = Some ''data'', attributes = Some [''rawString'']\<rparr>\<rparr>,
            example_session\<lparr>variableHandles :=
              \<lparr>nextHandle = 1001, handleMap = [1000 \<mapsto> AvmValueReference stack 3]\<rparr>,
              outbox := [response ''evaluate'']\<rparr>)"
proof -
  have h: "- int (length (stackValues example_session)) \<le> - 1"
    by (simp add: example_session_def)
  have t: "toString (- 1) = ''-1''" "toString 3 = ''3''"
    by (simp_all add: toString_def toString_nat.simps)
  have "evaluateRequest sample_largeNumberText (''stack['' @ toString (- 1) @ '']'')
          example_session =
       Inr (\<lparr>result = ''0x3521'', eval_type = Some ''byte[]'', eval_variablesReference = 1000,
             eval_presentationHint =
               Some \<lparr>kind = Some ''data'', attributes = Some [''rawString'']\<rparr>\<rparr>,
            example_session\<lparr>variableHandles :=
              \<lparr>nextHandle = 1001, handleMap = [1000 \<mapsto> AvmValueReference stack 3]\<rparr>,
              outbox := [response ''evaluate'']\<rparr>)"
    using evaluate_stack_negative_index [where s = example_session and i = "- 1"
        and T = sample_largeNumberText, OF h, THEN conjunct1]
    by (simp add: t example_session_def convertAvmValue_def create_handle_def Handles_create_def
        Handles_new_def sendResponse_def to_hex_def hex_of_byte_def isAsciiPrintable_def Let_def)
  then show ?thesis using h by (simp add: t)
qed

subsection \<open>The capabilities\<close>


subsection \<open>Disconnecting\<close>

text \<open>
  C7.  The specification asks that handling a disconnect request terminate the session.
  The handler does not: with arguments it writes one line to the console and returns,
  so that nothing is sent (neither the response to the request nor the event that ends
  a session), the handles and the values of the runtime are as before, and the session
  answers a following evaluate request as it would have answered it before; without
  arguments it throws.  In the example session a request to terminate the debuggee
  leaves the session as it was, but for the line on the console.
\<close>

theorem disconnectRequest_does_not_terminate:
  "disconnectRequest None s = Inl TypeError
   \<and> (\<exists>s'. disconnectRequest (Some args) s = Inr s'
         \<and> console_log s' = console_log s @
             [''disconnectRequest suspend: '' @ template_bool (suspendDebuggee args)
              @ '', terminate: '' @ template_bool (terminateDebuggee args)]
         \<and> outbox s' = outbox s
         \<and> variableHandles s' = variableHandles s
         \<and> stackValues s' = stackValues s
         \<and> scratchValues s' = scratchValues s
         \<and> map_sum id fst (evaluateRequest T e s') = map_sum id fst (evaluateRequest T e s))
   \<and> disconnectRequest (Some \<lparr>suspendDebuggee = None, terminateDebuggee = Some True\<rparr>)
        example_session =
      Inr (example_session
             \<lparr>console_log := [''disconnectRequest suspend: undefined, terminate: true'']\<rparr>)
   \<and> outbox (example_session
             \<lparr>console_log := [''disconnectRequest suspend: undefined, terminate: true'']\<rparr>) = []"
proof (intro conjI)
  show "disconnectRequest None s = Inl TypeError"
    by (simp add: disconnectRequest_def)
  show "\<exists>s'. disconnectRequest (Some args) s = Inr s'
         \<and> console_log s' = console_log s @
             [''disconnectRequest suspend: '' @ template_bool (suspendDebuggee args)
              @ '', terminate: '' @ template_bool (terminateDebuggee args)]
         \<and> outbox s' = outbox s
         \<and> variableHandles s' = variableHandles s
         \<and> stackValues s' = stackValues s
         \<and> scratchValues s' = scratchValues s
         \<and> map_sum id fst (evaluateRequest T e s') = map_sum id fst (evaluateRequest T e s)"
    by (cases "evaluateRequest T e s")
       (auto simp add: disconnectRequest_def evaluateRequest_console)
  show "disconnectRequest (Some \<lparr>suspendDebuggee = None, terminateDebuggee = Some True\<rparr>)
        example_session =
      Inr (example_session
             \<lparr>console_log := [''disconnectRequest suspend: undefined, terminate: true'']\<rparr>)"
    by (simp add: disconnectRequest_def example_session_def)
  show "outbox (example_session
             \<lparr>console_log := [''disconnectRequest suspend: undefined, terminate: true'']\<rparr>) = []"
    by (simp add: example_session_def)
qed

subsection \<open>Starting without the environment\<close>

text \<open>
  C8.  When \<^verbatim>\<open>ALGORAND_SIMULATION_RESPONSE_PATH\<close> is unset, and when it is set but
  \<^verbatim>\<open>ALGORAND_TXN_GROUP_SOURCES_DESCRIPTION_PATH\<close> is unset, the process prints the error
  \<^verbatim>\<open>missing\<close> followed by the name of that variable, exits with status 1 and starts
  neither a server nor a session, whatever the command line and the files are.
\<close>

theorem main_missing_environment:
  "(ALGORAND_SIMULATION_RESPONSE_PATH env = None \<longrightarrow>
      main loadFromFiles resolve env argv =
        \<lparr>stderr = [printed_error (Error ''missing ALGORAND_SIMULATION_RESPONSE_PATH'')],
         exit_status = Some 1, started = None\<rparr>)
   \<and> (ALGORAND_SIMULATION_RESPONSE_PATH env \<noteq> None
        \<and> ALGORAND_TXN_GROUP_SOURCES_DESCRIPTION_PATH env = None \<longrightarrow>
      main loadFromFiles resolve env argv =
        \<lparr>stderr = [printed_error (Error ''missing ALGORAND_TXN_GROUP_SOURCES_DESCRIPTION_PATH'')],
         exit_status = Some 1, started = None\<rparr>)"
  by (auto simp: main_def run_def Let_def)

text \<open>The theorem at one environment for each of the two variables.\<close>

theorem main_missing_environment_witness:
  "ALGORAND_SIMULATION_RESPONSE_PATH
     \<lparr>ALGORAND_SIMULATION_RESPONSE_PATH = None,
      ALGORAND_TXN_GROUP_SOURCES_DESCRIPTION_PATH = Some ''sources.json''\<rparr> = None
   \<and> ALGORAND_SIMULATION_RESPONSE_PATH
     \<lparr>ALGORAND_SIMULATION_RESPONSE_PATH = Some ''simulate-response.json'',
      ALGORAND_TXN_GROUP_SOURCES_DESCRIPTION_PATH = None\<rparr> \<noteq> None
   \<and> ALGORAND_TXN_GROUP_SOURCES_DESCRIPTION_PATH
     \<lparr>ALGORAND_SIMULATION_RESPONSE_PATH = Some ''simulate-response.json'',
      ALGORAND_TXN_GROUP_SOURCES_DESCRIPTION_PATH = None\<rparr> = None
   \<and> main (\<lambda>p q. Inr ()) id
        \<lparr>ALGORAND_SIMULATION_RESPONSE_PATH = None,
         ALGORAND_TXN_GROUP_SOURCES_DESCRIPTION_PATH = Some ''sources.json''\<rparr>
        [''node'', ''debugAdapter.js''] =
      \<lparr>stderr = [printed_error (Error ''missing ALGORAND_SIMULATION_RESPONSE_PATH'')],
       exit_status = Some 1, started = None\<rparr>
   \<and> main (\<lambda>p q. Inr ()) id
        \<lparr>ALGORAND_SIMULATION_RESPONSE_PATH = Some ''simulate-response.json'',
         ALGORAND_TXN_GROUP_SOURCES_DESCRIPTION_PATH = None\<rparr>
        [''node'', ''debugAdapter.js'', ''--server=4711''] =
      \<lparr>stderr = [printed_error (Error ''missing ALGORAND_TXN_GROUP_SOURCES_DESCRIPTION_PATH'')],
       exit_status = Some 1, started = None\<rparr>"
  using
    main_missing_environment [of "\<lparr>ALGORAND_SIMULATION_RESPONSE_PATH = None,
         ALGORAND_TXN_GROUP_SOURCES_DESCRIPTION_PATH = Some ''sources.json''\<rparr>"
        "\<lambda>p q. Inr ()" id "[''node'', ''debugAdapter.js'']"]
    main_missing_environment [of "\<lparr>ALGORAND_SIMULATION_RESPONSE_PATH = Some ''simulate-response.json'',
         ALGORAND_TXN_GROUP_SOURCES_DESCRIPTION_PATH = None\<rparr>"
        "\<lambda>p q. Inr ()" id "[''node'', ''debugAdapter.js'', ''--server=4711'']"]
  by simp

subsection \<open>Expanding an empty byte string or a number\<close>

text \<open>
  C9.  Expanding a byte string of length 0 (its \<^verbatim>\<open>bytes\<close> empty or absent) with no filter
  yields exactly one child, \<^verbatim>\<open>length\<close> with the value \<^verbatim>\<open>0\<close>; expanding a value that is not
  a byte string yields no children, whatever the filter.
\<close>

theorem expandAvmValue_empty_and_uint:
  "(type' v = 1 \<and> (bytes v = Some [] \<or> bytes v = None) \<longrightarrow>
      expandAvmValue H v None =
        [\<lparr>name = ''length'', value' = ''0'', var_type = Some ''number'', variablesReference = 0,
          namedVariables = None, indexedVariables = None, presentationHint = None,
          evaluateName = None\<rparr>])
   \<and> (type' u \<noteq> 1 \<longrightarrow> expandAvmValue H u flt = [])"
  by (auto simp: expandAvmValue_def isAsciiPrintable_def toString_0 format_child_def)

text \<open>The theorem at the empty byte string and at the number 7.\<close>

theorem expandAvmValue_empty_and_uint_witness:
  "type' \<lparr>type' = 1, bytes = Some [], uint = None\<rparr> = 1
   \<and> bytes \<lparr>type' = 1, bytes = Some [], uint = None\<rparr> = Some []
   \<and> map (\<lambda>c. (name c, value' c))
       (expandAvmValue (\<lambda>_. []) \<lparr>type' = 1, bytes = Some [], uint = None\<rparr> None) =
       [(''length'', ''0'')]
   \<and> type' \<lparr>type' = 2, bytes = None, uint = Some 7\<rparr> \<noteq> 1
   \<and> expandAvmValue (\<lambda>_. []) \<lparr>type' = 2, bytes = None, uint = Some 7\<rparr> None = []"
  using expandAvmValue_empty_and_uint [of "\<lparr>type' = 1, bytes = Some [], uint = None\<rparr>" "\<lambda>_. []"
      "\<lparr>type' = 2, bytes = None, uint = Some 7\<rparr>" None]
  by simp

subsection \<open>Unknown expressions\<close>

text \<open>
  C10.  When the expression matches neither pattern, the request succeeds with the
  result \<^verbatim>\<open>unknown expression:\<close> followed by the expression in double quotes, and with
  the variables reference 0; and for no expression and no session does the handler end
  in an error.
\<close>

theorem evaluate_unknown_expression:
  "(stack_regex_exec e = None \<and> scratch_regex_exec e = None \<longrightarrow>
      evaluateRequest T e s =
        Inr (\<lparr>result = ''unknown expression: '' @ [CHR 0x22] @ e @ [CHR 0x22],
              eval_type = None, eval_variablesReference = 0, eval_presentationHint = None\<rparr>,
             sendResponse ''evaluate'' s))
   \<and> (\<exists>r. evaluateRequest T' e' s' = Inr r)"
  using evaluateRequest_total [of T' e' s']
  by (simp add: evaluateRequest_def evaluate_body_def)

text \<open>The theorem at \<^verbatim>\<open>stack[top]\<close> in the example session.\<close>

theorem evaluate_unknown_expression_witness:
  "stack_regex_exec ''stack[top]'' = None \<and> scratch_regex_exec ''stack[top]'' = None
   \<and> evaluateRequest sample_largeNumberText ''stack[top]'' example_session =
        Inr (\<lparr>result = ''unknown expression: '' @ [CHR 0x22] @ ''stack[top]'' @ [CHR 0x22],
              eval_type = None, eval_variablesReference = 0, eval_presentationHint = None\<rparr>,
             sendResponse ''evaluate'' example_session)"
proof -
  have h: "stack_regex_exec ''stack[top]'' = None" "scratch_regex_exec ''stack[top]'' = None"
    by (simp_all add: stack_regex_exec_def scratch_regex_exec_def index_regex_exec_def
        is_digit_def)
  show ?thesis
    using evaluate_unknown_expression [where e = "''stack[top]''" and s = example_session
        and T = sample_largeNumberText] h
    by simp
qed

end
